theory Spec2Isabelle
  imports Complex_Main "HOL-Library.Sublist" "HOL-Library.AList"
begin

section \<open>Python values used by proxy.py\<close>

text \<open>
  Strings and byte strings are lists of 8-bit characters. A \<open>dict\<close> is the list of its
  items in insertion order (Python dicts iterate in that order); \<open>dict_set\<close> is
  \<open>d[k] = v\<close>: it replaces the value of an existing key in place and puts a new key last.
  \<open>k in d\<close> is \<open>dict_has\<close>, \<open>d.get(k)\<close> is \<open>map_of d k\<close>.
\<close>

type_synonym bytes = string

type_synonym 'v dict = "(string \<times> 'v) list"

type_synonym headers = "string list dict"

datatype error = AssertionError | IndexError | TypeError | RuntimeError string | OSError string

definition dict_has :: "'v dict \<Rightarrow> string \<Rightarrow> bool" where
  "dict_has d k = (map_of d k \<noteq> None)"

definition dict_set :: "string \<Rightarrow> 'v \<Rightarrow> 'v dict \<Rightarrow> 'v dict" where
  "dict_set k v d = AList.update k v d"

text \<open>
  \<open>str.upper\<close> and \<open>str.lower\<close> on the ASCII letters; every other character is kept.
  proxy.py only compares their results with ASCII literals (\<open>"GET"\<close>, \<open>"HEAD"\<close>,
  \<open>"set-cookie"\<close>, \<open>"content-type"\<close>, \<open>"content-encoding"\<close>).
\<close>

definition upper_char :: "char \<Rightarrow> char" where
  "upper_char c =
     (case map_of (zip ''abcdefghijklmnopqrstuvwxyz'' ''ABCDEFGHIJKLMNOPQRSTUVWXYZ'') c of
        None \<Rightarrow> c
      | Some u \<Rightarrow> u)"

definition lower_char :: "char \<Rightarrow> char" where
  "lower_char c =
     (case map_of (zip ''ABCDEFGHIJKLMNOPQRSTUVWXYZ'' ''abcdefghijklmnopqrstuvwxyz'') c of
        None \<Rightarrow> c
      | Some l \<Rightarrow> l)"

definition str_upper :: "string \<Rightarrow> string" where
  "str_upper s = map upper_char s"

definition str_lower :: "string \<Rightarrow> string" where
  "str_lower s = map lower_char s"

definition startswith :: "string \<Rightarrow> string \<Rightarrow> bool" where
  "startswith s p = prefix p s"

definition lstrip :: "char \<Rightarrow> string \<Rightarrow> string" where
  "lstrip c s = dropWhile (\<lambda>x. x = c) s"

text \<open>\<open>s.split(sep)\<close> for a one-character separator: never the empty list.\<close>

fun split_on :: "char \<Rightarrow> string \<Rightarrow> string list" where
  "split_on sep [] = [[]]"
| "split_on sep (x # xs) =
     (if x = sep then [] # split_on sep xs
      else (case split_on sep xs of
              [] \<Rightarrow> [[x]]
            | y # ys \<Rightarrow> (x # y) # ys))"

text \<open>\<open>sep.join(xs)\<close>.\<close>

fun join :: "string \<Rightarrow> string list \<Rightarrow> string" where
  "join sep [] = []"
| "join sep [x] = x"
| "join sep (x # y # ys) = x @ sep @ join sep (y # ys)"

text \<open>\<open>str(n)\<close> for a non-negative integer: its decimal digits.\<close>

fun str_nat :: "nat \<Rightarrow> string" where
  "str_nat n =
     (if n < 10 then [''0123456789'' ! n]
      else str_nat (n div 10) @ [''0123456789'' ! (n mod 10)])"

declare str_nat.simps [simp del]

section \<open>The world outside the program\<close>

text \<open>
  What \<open>Path(static_path) / rel\<close> denotes on the file system at the time of the request:
  nothing, something that is not a regular file, or a regular file with its content.
  One request reads one snapshot: \<open>stat().st_size\<close> and \<open>read_bytes()\<close> see the same file,
  and a regular file can be read.
\<close>

datatype fnode = Missing | NotRegular | Regular bytes

primrec exists_node :: "fnode \<Rightarrow> bool" where
  "exists_node Missing = False"
| "exists_node NotRegular = True"
| "exists_node (Regular b) = True"

primrec is_file :: "fnode \<Rightarrow> bool" where
  "is_file Missing = False"
| "is_file NotRegular = False"
| "is_file (Regular b) = True"

text \<open>Both are called on regular files only (the guard of \<open>_static_handler\<close>).\<close>

primrec read_bytes :: "fnode \<Rightarrow> bytes" where
  "read_bytes Missing = []"
| "read_bytes NotRegular = []"
| "read_bytes (Regular b) = b"

primrec st_size :: "fnode \<Rightarrow> nat" where
  "st_size Missing = 0"
| "st_size NotRegular = 0"
| "st_size (Regular b) = length b"

type_synonym response = "int \<times> headers \<times> bytes option"

text \<open>
  The library calls whose results the program only passes on are fields of the world:
  the file system under a static root, \<open>mimetypes.guess_type(path)[0]\<close>,
  \<open>urllib.parse.urlencode(query, doseq=True)\<close>, \<open>urllib.parse.parse_qs\<close>, the base64
  codec, and one HTTP exchange with the API server (host, port, timeout, method, url,
  header lines, body), which answers with a status, header lines and a body or fails.
\<close>

record world =
  fs :: "string \<Rightarrow> string \<Rightarrow> fnode"
  guess_type :: "string \<Rightarrow> string option"
  urlencode :: "headers \<Rightarrow> string"
  parse_qs :: "string \<Rightarrow> headers"
  b64decode :: "string \<Rightarrow> error + bytes"
  b64encode :: "bytes \<Rightarrow> bytes"
  http_exchange :: "string \<Rightarrow> nat \<Rightarrow> real \<Rightarrow> string \<Rightarrow> string \<Rightarrow>
    (string \<times> string) list \<Rightarrow> bytes option \<Rightarrow> error + (int \<times> (string \<times> string) list \<times> bytes)"

section \<open>make_proxy_app: the three handlers\<close>

text \<open>\<open>_static_handler(method, path)\<close>, closed over \<open>static_path\<close>.\<close>

definition static_handler :: "world \<Rightarrow> string \<Rightarrow> string \<Rightarrow> string \<Rightarrow> response" where
  "static_handler w static_path method0 path =
     (let method = str_upper method0;
          filepath = fs w static_path (lstrip CHR ''/'' path);
          accepted_methods = [''GET'', ''HEAD'']
      in if method \<in> set accepted_methods \<and> exists_node filepath \<and> is_file filepath then
           (let (response_body, content_length) =
                  (if method = ''HEAD'' then ([], st_size filepath)
                   else (read_bytes filepath, length (read_bytes filepath)));
                content_type =
                  (case guess_type w path of
                     None \<Rightarrow> ''text/plain''
                   | Some g \<Rightarrow> if g = [] then ''text/plain'' else g)
            in (200,
                [(''Content-Length'', [str_nat content_length]),
                 (''Content-Type'', [content_type])],
                Some response_body))
         else if method \<notin> set accepted_methods then
           (401,
            [(''Content-Length'', [str_nat (length ''Bad Request'')]),
             (''Content-Type'', [''text/plain''])],
            Some ''Bad Request'')
         else
           (404,
            [(''Content-Length'', [str_nat (length ''Not Found'')]),
             (''Content-Type'', [''text/plain''])],
            Some ''Not Found''))"

text \<open>
  The loop of \<open>_api_server_handler\<close> over \<open>response.getheaders()\<close>: a repeated name
  appends to its list, a new name starts one.
\<close>

definition add_value :: "string \<Rightarrow> string \<Rightarrow> headers \<Rightarrow> headers" where
  "add_value name v hs =
     (case map_of hs name of
        Some vs \<Rightarrow> dict_set name (vs @ [v]) hs
      | None \<Rightarrow> dict_set name [v] hs)"

definition group_headers :: "(string \<times> string) list \<Rightarrow> headers" where
  "group_headers lines = fold (\<lambda>(name, v) hs. add_value name v hs) lines []"

text \<open>The header lines \<open>headers_multi\<close>: one line per value, in order.\<close>

definition header_lines :: "headers \<Rightarrow> (string \<times> string) list" where
  "header_lines hs = concat (map (\<lambda>(name, vs). map (\<lambda>v. (name, v)) vs) hs)"

definition api_server_handler ::
  "world \<Rightarrow> string \<Rightarrow> nat \<Rightarrow> string \<Rightarrow> string \<Rightarrow> headers \<Rightarrow> headers \<Rightarrow> bytes option \<Rightarrow> real
     \<Rightarrow> error + response" where
  "api_server_handler w api_server_host api_server_port method path query hdrs body timeout =
     (let url = (if length query \<noteq> 0 then path @ ''?'' @ urlencode w query else path);
          headers_multi = header_lines hdrs
      in case http_exchange w api_server_host api_server_port timeout method url
                headers_multi body of
           Inl e \<Rightarrow> Inl e
         | Inr (status, lines, response_body) \<Rightarrow>
             Inr (status, group_headers lines, Some response_body))"

definition root_handler ::
  "world \<Rightarrow> string \<Rightarrow> string \<Rightarrow> nat \<Rightarrow> string \<Rightarrow> string \<Rightarrow> headers \<Rightarrow> headers \<Rightarrow> bytes option
     \<Rightarrow> real \<Rightarrow> error + response" where
  "root_handler w static_path api_server_host api_server_port method path query hdrs body timeout =
     (if path = ''/'' then Inr (static_handler w static_path method ''/index.html'')
      else if startswith path ''/api/'' then
        api_server_handler w api_server_host api_server_port method path query hdrs body timeout
      else Inr (static_handler w static_path method path))"

text \<open>\<open>make_proxy_app\<close> returns the root handler, closed over its three arguments.\<close>

definition make_proxy_app ::
  "world \<Rightarrow> string \<Rightarrow> string \<Rightarrow> nat \<Rightarrow> string \<Rightarrow> string \<Rightarrow> headers \<Rightarrow> headers \<Rightarrow> bytes option
     \<Rightarrow> real \<Rightarrow> error + response" where
  "make_proxy_app w static_path api_server_host api_server_port =
     root_handler w static_path api_server_host api_server_port"

section \<open>The binary-content decision\<close>

text \<open>\<open>values[0]\<close>: raises IndexError on an empty list.\<close>

definition first_value :: "string list \<Rightarrow> error + string" where
  "first_value vs = (case vs of [] \<Rightarrow> Inl IndexError | v # rest \<Rightarrow> Inr v)"

definition is_text_content_type :: "string \<Rightarrow> bool" where
  "is_text_content_type content_type =
     (if startswith content_type ''text/'' then True
      else if startswith content_type ''application/javascript'' then True
      else if startswith content_type ''application/json'' then True
      else if startswith content_type ''image/svg+xml'' then True
      else False)"

text \<open>
  The loop of \<open>_is_binary_content\<close> over \<open>headers.items()\<close>, with the two local
  variables as arguments: a later matching item overwrites an earlier one.
\<close>

fun scan_headers :: "headers \<Rightarrow> string \<Rightarrow> string \<Rightarrow> error + (string \<times> string)" where
  "scan_headers [] content_type content_encoding = Inr (content_type, content_encoding)"
| "scan_headers ((name, vs) # rest) content_type content_encoding =
     (case (if str_lower name = ''content-type'' then first_value vs else Inr content_type) of
        Inl e \<Rightarrow> Inl e
      | Inr content_type' \<Rightarrow>
          (case (if str_lower name = ''content-encoding'' then first_value vs
                 else Inr content_encoding) of
             Inl e \<Rightarrow> Inl e
           | Inr content_encoding' \<Rightarrow> scan_headers rest content_type' content_encoding'))"

definition is_binary_content :: "headers \<Rightarrow> error + bool" where
  "is_binary_content hs =
     (case scan_headers hs ''text/plain'' ''identity'' of
        Inl e \<Rightarrow> Inl e
      | Inr (content_type, content_encoding) \<Rightarrow>
          if content_encoding \<noteq> ''identity'' then Inr True
          else if is_text_content_type content_type then Inr False
          else Inr True)"





section \<open>lambda_handler: the gateway adapter\<close>

text \<open>
  The API Gateway 2.0 event. \<open>rawQueryString\<close> may be null; \<open>cookies\<close> and \<open>body\<close> may
  be missing (\<open>event.get\<close>); \<open>headers\<close> is a JSON object, so its names are distinct.
\<close>

record event =
  ev_version :: string
  ev_method :: string
  ev_path :: string
  ev_rawQueryString :: "string option"
  ev_headers :: "string dict"
  ev_cookies :: "string list option"
  ev_body :: "string option"
  ev_isBase64Encoded :: bool

record reply =
  statusCode :: int
  reply_headers :: "string dict"
  reply_cookies :: "string list"
  reply_isBase64Encoded :: bool
  reply_body :: "bytes option"

text \<open>Line 81: \<open>{name: values.split(",") for name, values in event["headers"].items()}\<close>.\<close>

definition split_headers :: "string dict \<Rightarrow> headers" where
  "split_headers eh = map (\<lambda>(name, vals). (name, split_on CHR '','' vals)) eh"

text \<open>Lines 83 to 86: one round of the loop over the cookies.\<close>

definition add_cookie :: "string \<Rightarrow> headers \<Rightarrow> headers" where
  "add_cookie cookie hs =
     (if dict_has hs ''Cookie'' then
        (case map_of hs ''Cookie'' of
           Some vs \<Rightarrow> dict_set ''Cookie'' (vs @ [cookie]) hs
         | None \<Rightarrow> hs)
      else dict_set ''Cookie'' [cookie] hs)"

definition event_cookies :: "event \<Rightarrow> string list" where
  "event_cookies ev = (case ev_cookies ev of None \<Rightarrow> [] | Some cs \<Rightarrow> cs)"

text \<open>Lines 81 to 86: the headers of the internal request.\<close>

definition request_headers :: "event \<Rightarrow> headers" where
  "request_headers ev = fold add_cookie (event_cookies ev) (split_headers (ev_headers ev))"

text \<open>
  Lines 105 to 126: the reply for a routed response. \<open>standard_b64encode(None)\<close>
  raises TypeError.
\<close>

definition encode_response :: "world \<Rightarrow> response \<Rightarrow> error + reply" where
  "encode_response w r =
     (case r of (status, response_headers, response_body) \<Rightarrow>
        (case is_binary_content response_headers of
           Inl e \<Rightarrow> Inl e
         | Inr binary \<Rightarrow>
             (case (if binary then
                      (case response_body of
                         None \<Rightarrow> Inl TypeError
                       | Some b \<Rightarrow> Inr (True, Some (b64encode w b)))
                    else Inr (False, response_body)) of
                Inl e \<Rightarrow> Inl e
              | Inr (is_base64_encoded, body') \<Rightarrow>
                  Inr \<lparr> statusCode = status,
                        reply_headers =
                          map (\<lambda>(name, vs). (name, join '','' vs))
                            (filter (\<lambda>(name, vs). str_lower name \<noteq> ''set-cookie'')
                               response_headers),
                        reply_cookies =
                          concat (map (\<lambda>(name, vs). vs)
                            (filter (\<lambda>(name, vs). str_lower name = ''set-cookie'')
                               response_headers)),
                        reply_isBase64Encoded = is_base64_encoded,
                        reply_body = body' \<rparr>)))"

text \<open>
  \<open>lambda_handler(event, context)\<close>; \<open>proxy_app\<close> is \<open>one_time_init.proxy_app\<close> and
  \<open>remaining_millis\<close> is \<open>context.get_remaining_time_in_millis()\<close>.
\<close>

definition lambda_handler ::
  "world \<Rightarrow> (string \<Rightarrow> string \<Rightarrow> headers \<Rightarrow> headers \<Rightarrow> bytes option \<Rightarrow> real \<Rightarrow> error + response)
     \<Rightarrow> event \<Rightarrow> int \<Rightarrow> error + reply" where
  "lambda_handler w proxy_app ev remaining_millis =
     (if ev_version ev \<noteq> ''2.0'' then Inl AssertionError
      else
        (let method = ev_method ev;
             path = ev_path ev;
             query_string = (case ev_rawQueryString ev of None \<Rightarrow> [] | Some q \<Rightarrow> q);
             query = parse_qs w query_string;
             hdrs = request_headers ev;
             body0 = (case ev_body ev of None \<Rightarrow> [] | Some b \<Rightarrow> b);
             timeout_buffer = 1;
             timeout = real_of_int remaining_millis / 1000 - timeout_buffer
         in case (if ev_isBase64Encoded ev then b64decode w body0 else Inr body0) of
              Inl e \<Rightarrow> Inl e
            | Inr body \<Rightarrow>
                (case proxy_app method path query hdrs (Some body) timeout of
                   Inl e \<Rightarrow> Inl e
                 | Inr r \<Rightarrow> encode_response w r)))"

text \<open>
  The values of the header \<open>key\<close> when names are compared without regard to letter
  case: the values of every entry so named, in iteration order.
\<close>

definition header_values :: "headers \<Rightarrow> string \<Rightarrow> string list" where
  "header_values hs key =
     concat (map (\<lambda>(name, vs). vs) (filter (\<lambda>(name, vs). str_lower name = key) hs))"

section \<open>start_api_server_process\<close>

text \<open>
  The process table: \<open>subprocess.Popen\<close> adds a running process and returns its index
  as the handle; \<open>process.terminate()\<close> marks it terminated.
\<close>

datatype proc_status = Running | Terminated

record process =
  proc_command :: string
  proc_env :: "string dict"
  proc_status :: proc_status

definition popen :: "string \<Rightarrow> string dict \<Rightarrow> process list \<Rightarrow> nat \<times> process list" where
  "popen command env procs =
     (length procs,
      procs @ [\<lparr> proc_command = command, proc_env = env, proc_status = Running \<rparr>])"

definition terminate :: "nat \<Rightarrow> process list \<Rightarrow> process list" where
  "terminate h procs =
     (if h < length procs then procs[h := (procs ! h)\<lparr> proc_status := Terminated \<rparr>]
      else procs)"

text \<open>
  What the loop observes: the reading of \<open>time.monotonic()\<close> before the loop, the
  result of the connection attempt of round \<open>k\<close> (\<open>connect_ex(...) == 0\<close>), and the
  reading of \<open>time.monotonic()\<close> in round \<open>k\<close>, rounds counted from 0.
\<close>

record probe_env =
  start_time :: real
  connect_ok :: "string \<Rightarrow> nat \<Rightarrow> nat \<Rightarrow> bool"
  clock :: "nat \<Rightarrow> real"

text \<open>
  The \<open>while True\<close> loop from round \<open>k\<close> on: \<open>Some True\<close> for \<open>break\<close>, \<open>Some False\<close>
  when the deadline check fires, \<open>None\<close> when the loop runs forever. A round sleeps,
  tries to connect, and reads the clock only after a failed attempt.
\<close>

partial_function (option) probe_loop ::
  "probe_env \<Rightarrow> string \<Rightarrow> nat \<Rightarrow> real \<Rightarrow> nat \<Rightarrow> bool option" where
  "probe_loop pe host port end_time k =
     (if connect_ok pe host port k then Some True
      else if clock pe k \<ge> end_time then Some False
      else probe_loop pe host port end_time (Suc k))"

definition start_api_server_process ::
  "probe_env \<Rightarrow> string \<Rightarrow> string \<Rightarrow> nat \<Rightarrow> int \<Rightarrow> string \<Rightarrow> process list
     \<Rightarrow> ((error + nat) \<times> process list) option" where
  "start_api_server_process pe command host port start_timeout path procs =
     (let (process, procs1) =
            popen command
              [(''PATH'', path), (''PORT'', str_nat port), (''PYTHONPATH'', ''.pypath/'')]
              procs;
          end_time = start_time pe + real_of_int start_timeout
      in case probe_loop pe host port end_time 0 of
           None \<Rightarrow> None
         | Some True \<Rightarrow> Some (Inr process, procs1)
         | Some False \<Rightarrow>
             Some (Inl (RuntimeError ''Timeout waiting for API server to start''),
                   terminate process procs1))"

text \<open>
  The last reading of the clock taken before the connection attempt of round \<open>k\<close>:
  the reading before the loop for round 0, the reading of round \<open>k - 1\<close> otherwise.
  The clock is monotonic, so the attempt of round \<open>k\<close> is not made before that time.
\<close>

definition last_reading :: "probe_env \<Rightarrow> nat \<Rightarrow> real" where
  "last_reading pe k = (case k of 0 \<Rightarrow> start_time pe | Suc i \<Rightarrow> clock pe i)"

section \<open>The Content-Length invariant of a response\<close>

definition body_len :: "bytes option \<Rightarrow> nat" where
  "body_len body = (case body of None \<Rightarrow> 0 | Some b \<Rightarrow> length b)"

text \<open>
  Every header named Content-Length (in any letter case) has the one value
  \<open>str(len(body))\<close>, with 0 for an absent body.
\<close>

definition content_length_ok :: "response \<Rightarrow> bool" where
  "content_length_ok r =
     (case r of (status, hs, body) \<Rightarrow>
        list_all (\<lambda>(name, vs). str_lower name = ''content-length'' \<longrightarrow>
                    vs = [str_nat (body_len body)]) hs)"

section \<open>A concrete world\<close>

text \<open>
  A static root \<open>app/build\<close> that holds \<open>index.html\<close> (6 bytes) and an empty file
  \<open>empty.txt\<close>; the root itself is a directory; the API server refuses connections.
\<close>

definition example_world :: world where
  "example_world =
     \<lparr> fs = (\<lambda>root rel.
               if root = ''app/build'' \<and> rel = ''index.html'' then Regular ''<html>''
               else if root = ''app/build'' \<and> rel = ''empty.txt'' then Regular []
               else if root = ''app/build'' \<and> rel = [] then NotRegular
               else Missing),
       guess_type = (\<lambda>p. if p = ''/index.html'' then Some ''text/html'' else None),
       urlencode = (\<lambda>q. []),
       parse_qs = (\<lambda>s. []),
       b64decode = (\<lambda>s. Inr s),
       b64encode = (\<lambda>b. b),
       http_exchange = (\<lambda>host port timeout method url lines body.
                          Inl (OSError ''Connection refused'')) \<rparr>"

text \<open>
  A backend that accepts connections from round \<open>n\<close> on, observed by a clock that
  starts at 0 and reads \<open>k + 1\<close> seconds in round \<open>k\<close>.
\<close>

definition example_probes :: "nat \<Rightarrow> probe_env" where
  "example_probes n =
     \<lparr> start_time = 0,
       connect_ok = (\<lambda>host port k. n \<le> k),
       clock = (\<lambda>k. real (Suc k)) \<rparr>"

section \<open>Helper lemmas\<close>

lemma upper_char_idem: "upper_char (upper_char c) = upper_char c"
  by (simp add: upper_char_def)

lemma str_upper_idem: "str_upper (str_upper s) = str_upper s"
  by (simp add: str_upper_def upper_char_idem)

lemma str_lower_content_length: "str_lower ''Content-Length'' = ''content-length''"
  by (simp add: str_lower_def lower_char_def)

lemma str_lower_content_type: "str_lower ''Content-Type'' \<noteq> ''content-length''"
  by (simp add: str_lower_def lower_char_def)














lemma lower_cookie: "str_lower ''Cookie'' = ''cookie''"
  by (simp add: str_lower_def lower_char_def)

lemma add_cookie_map_of:
  "map_of (add_cookie c hs) n =
     (if n = ''Cookie''
      then Some ((case map_of hs ''Cookie'' of None \<Rightarrow> [] | Some vs \<Rightarrow> vs) @ [c])
      else map_of hs n)"
  by (auto simp: add_cookie_def dict_has_def dict_set_def update_conv' split: option.splits)

lemma fold_add_cookie_map_of:
  "map_of (fold add_cookie cs hs) n =
     (if n = ''Cookie'' \<and> cs \<noteq> []
      then Some ((case map_of hs ''Cookie'' of None \<Rightarrow> [] | Some vs \<Rightarrow> vs) @ cs)
      else map_of hs n)"
proof (induction cs arbitrary: hs)
  case Nil
  show ?case by simp
next
  case (Cons c cs)
  show ?case
    by (simp add: Cons.IH add_cookie_map_of split: option.splits)
qed

lemma update_absent: "k \<notin> fst ` set al \<Longrightarrow> AList.update k v al = al @ [(k, v)]"
  by (induction al) auto

lemma update_append_absent:
  "k \<notin> fst ` set xs \<Longrightarrow> AList.update k v (xs @ ys) = xs @ AList.update k v ys"
  by (induction xs) auto

lemma add_cookie_keys:
  "map fst (add_cookie c hs) =
     (if ''Cookie'' \<in> set (map fst hs) then map fst hs else map fst hs @ [''Cookie''])"
  by (auto simp: add_cookie_def dict_has_def dict_set_def update_keys map_of_eq_None_iff
        split: option.splits)

lemma fold_add_cookie_keys:
  "map fst (fold add_cookie cs hs) =
     (if cs = [] \<or> ''Cookie'' \<in> set (map fst hs) then map fst hs
      else map fst hs @ [''Cookie''])"
proof (induction cs arbitrary: hs)
  case Nil
  show ?case by simp
next
  case (Cons c cs)
  show ?case
    by (simp add: Cons.IH add_cookie_keys)
qed

lemma fold_add_cookie_last:
  "''Cookie'' \<notin> fst ` set hs \<Longrightarrow>
   fold add_cookie cs (hs @ [(''Cookie'', vs)]) = hs @ [(''Cookie'', vs @ cs)]"
proof (induction cs arbitrary: vs)
  case Nil
  show ?case by simp
next
  case (Cons c cs)
  from Cons.prems have m: "map_of (hs @ [(''Cookie'', vs)]) ''Cookie'' = Some vs"
    by (simp add: map_add_Some_iff map_of_eq_None_iff)
  from Cons.prems have "add_cookie c (hs @ [(''Cookie'', vs)]) = hs @ [(''Cookie'', vs @ [c])]"
    unfolding add_cookie_def dict_has_def dict_set_def m
    by (simp add: update_append_absent)
  then show ?case
    using Cons.IH [OF Cons.prems, of "vs @ [c]"] by simp
qed

lemma fold_add_cookie_fresh:
  assumes "''Cookie'' \<notin> fst ` set hs" and "cs \<noteq> []"
  shows "fold add_cookie cs hs = hs @ [(''Cookie'', cs)]"
proof (cases cs)
  case Nil
  with assms show ?thesis by simp
next
  case (Cons c rest)
  from assms(1) have "map_of hs ''Cookie'' = None"
    by (simp add: map_of_eq_None_iff)
  with assms(1) have "add_cookie c hs = hs @ [(''Cookie'', [c])]"
    by (simp add: add_cookie_def dict_has_def dict_set_def update_absent)
  with Cons fold_add_cookie_last [OF assms(1), of rest "[c]"] show ?thesis
    by simp
qed

lemma split_headers_keys: "map fst (split_headers eh) = map fst eh"
  by (induction eh) (auto simp: split_headers_def)

lemma lower_set_cookie: "str_lower ''Set-Cookie'' = ''set-cookie''"
  by (simp add: str_lower_def lower_char_def)

lemma encode_response_fields:
  assumes "encode_response w (status, hs, body) = Inr r"
  shows "reply_headers r =
           map (\<lambda>(name, vs). (name, join '','' vs))
             (filter (\<lambda>(name, vs). str_lower name \<noteq> ''set-cookie'') hs)"
    and "reply_cookies r =
           concat (map (\<lambda>(name, vs). vs)
             (filter (\<lambda>(name, vs). str_lower name = ''set-cookie'') hs))"
    and "statusCode r = status"
  using assms
  by (auto simp: encode_response_def split: sum.splits if_splits option.splits)

lemma length_concat_values:
  "length (concat (map (\<lambda>(name, vs). vs) xs)) = sum_list (map (\<lambda>(name, vs). length vs) xs)"
  by (induction xs) auto

lemma probe_loop_success: "connect_ok pe host port k \<Longrightarrow> probe_loop pe host port e k = Some True"
  by (subst probe_loop.simps) simp

lemma probe_loop_expired:
  "\<not> connect_ok pe host port k \<Longrightarrow> clock pe k \<ge> e \<Longrightarrow> probe_loop pe host port e k = Some False"
  by (subst probe_loop.simps) simp

lemma probe_loop_next:
  "\<not> connect_ok pe host port k \<Longrightarrow> clock pe k < e \<Longrightarrow>
   probe_loop pe host port e k = probe_loop pe host port e (Suc k)"
  by (subst probe_loop.simps) simp

lemma probe_loop_skip:
  "(\<forall>i < n. \<not> connect_ok pe host port (s + i) \<and> clock pe (s + i) < e) \<Longrightarrow>
   probe_loop pe host port e s = probe_loop pe host port e (s + n)"
proof (induction n arbitrary: s)
  case 0
  show ?case by simp
next
  case (Suc n)
  from Suc.prems have h: "\<not> connect_ok pe host port s" "clock pe s < e"
    by (metis add.right_neutral zero_less_Suc)+
  have "\<forall>i < n. \<not> connect_ok pe host port (Suc s + i) \<and> clock pe (Suc s + i) < e"
  proof (intro allI impI)
    fix i assume "i < n"
    then have "Suc i < Suc n" by simp
    with Suc.prems have "\<not> connect_ok pe host port (s + Suc i) \<and> clock pe (s + Suc i) < e"
      by blast
    then show "\<not> connect_ok pe host port (Suc s + i) \<and> clock pe (Suc s + i) < e" by simp
  qed
  from Suc.IH [OF this] probe_loop_next [OF h] show ?case by simp
qed

text \<open>
  A reply of \<open>lambda_handler\<close> is the serialization of the response that the proxy
  application gave for the request headers of lines 81 to 86.
\<close>

lemma lambda_handler_reply:
  assumes "lambda_handler w proxy_app ev remaining_millis = Inr r"
  shows "\<exists>body resp.
           proxy_app (ev_method ev) (ev_path ev)
             (parse_qs w (case ev_rawQueryString ev of None \<Rightarrow> [] | Some q \<Rightarrow> q))
             (request_headers ev) (Some body) (real_of_int remaining_millis / 1000 - 1) =
             Inr resp
           \<and> encode_response w resp = Inr r"
  using assms
  by (auto simp: lambda_handler_def Let_def split: if_splits sum.splits)

section \<open>The Request Router\<close>

text \<open>
  C3. For every method, query, headers, body and timeout, routing the path \<open>/\<close> gives
  the same result as routing the path \<open>/index.html\<close>: both are the static resolution
  of \<open>/index.html\<close> with the method unchanged.
\<close>

theorem root_is_index_html:
  "root_handler w static_path host port method ''/'' query hdrs body timeout =
     root_handler w static_path host port method ''/index.html'' query hdrs body timeout
   \<and> root_handler w static_path host port method ''/'' query hdrs body timeout =
     Inr (static_handler w static_path method ''/index.html'')"
  by (simp add: root_handler_def startswith_def)

text \<open>
  C8. Two requests with the same method and the same path, the path not starting with
  \<open>/api/\<close>, get the same response whatever their query, headers, body and timeout are:
  the response is the static resolution of the method and the path (of \<open>/index.html\<close>
  for the path \<open>/\<close>).
\<close>

theorem static_route_ignores_rest:
  assumes "\<not> startswith path ''/api/''"
  shows "root_handler w static_path host port method path query1 hdrs1 body1 timeout1 =
           root_handler w static_path host port method path query2 hdrs2 body2 timeout2
         \<and> root_handler w static_path host port method path query1 hdrs1 body1 timeout1 =
           Inr (static_handler w static_path method
                  (if path = ''/'' then ''/index.html'' else path))"
  using assms by (simp add: root_handler_def)

theorem static_route_ignores_rest_witness:
  "\<not> startswith ''/index.html'' ''/api/''
   \<and> root_handler example_world ''app/build'' ''localhost'' 8180 ''GET'' ''/index.html''
        [(''a'', [''1''])] [(''Cookie'', [''x=1''])] None 15 =
      root_handler example_world ''app/build'' ''localhost'' 8180 ''GET'' ''/index.html''
        [] [] (Some ''payload'') 3
   \<and> root_handler example_world ''app/build'' ''localhost'' 8180 ''GET'' ''/index.html''
        [(''a'', [''1''])] [(''Cookie'', [''x=1''])] None 15 =
      Inr (200, [(''Content-Length'', [''6'']), (''Content-Type'', [''text/html''])],
           Some ''<html>'')"
proof -
  have h: "\<not> startswith ''/index.html'' ''/api/''"
    by (simp add: startswith_def)
  have v: "static_handler example_world ''app/build'' ''GET'' ''/index.html'' =
             (200, [(''Content-Length'', [''6'']), (''Content-Type'', [''text/html''])],
              Some ''<html>'')"
    by (simp add: static_handler_def example_world_def str_upper_def upper_char_def
          lstrip_def str_nat.simps)
  have t: "root_handler example_world ''app/build'' ''localhost'' 8180 ''GET'' ''/index.html''
             [(''a'', [''1''])] [(''Cookie'', [''x=1''])] None 15 =
           root_handler example_world ''app/build'' ''localhost'' 8180 ''GET'' ''/index.html''
             [] [] (Some ''payload'') 3
         \<and> root_handler example_world ''app/build'' ''localhost'' 8180 ''GET'' ''/index.html''
             [(''a'', [''1''])] [(''Cookie'', [''x=1''])] None 15 =
           Inr (static_handler example_world ''app/build'' ''GET'' ''/index.html'')"
    using static_route_ignores_rest [OF h, where w = example_world] by simp
  from t have e1: "root_handler example_world ''app/build'' ''localhost'' 8180 ''GET''
             ''/index.html'' [(''a'', [''1''])] [(''Cookie'', [''x=1''])] None 15 =
           root_handler example_world ''app/build'' ''localhost'' 8180 ''GET'' ''/index.html''
             [] [] (Some ''payload'') 3" ..
  from t have e2: "root_handler example_world ''app/build'' ''localhost'' 8180 ''GET''
             ''/index.html'' [(''a'', [''1''])] [(''Cookie'', [''x=1''])] None 15 =
           Inr (static_handler example_world ''app/build'' ''GET'' ''/index.html'')" ..
  show ?thesis
    by (intro conjI) (rule h, rule e1, simp only: e2 v)
qed

section \<open>The Static File Resolver\<close>

text \<open>
  C6. For every method whose upper-cased form is neither GET nor HEAD and for every path,
  the static resolver answers with status 401 and the body \<open>Bad Request\<close> (with
  Content-Length 11 and Content-Type text/plain), whatever the file system holds at
  the path.
\<close>

theorem static_other_method_401:
  assumes "str_upper method \<noteq> ''GET''" and "str_upper method \<noteq> ''HEAD''"
  shows "static_handler w static_path method path =
           (401,
            [(''Content-Length'', [''11'']), (''Content-Type'', [''text/plain''])],
            Some ''Bad Request'')"
  using assms by (simp add: static_handler_def str_nat.simps)

theorem static_other_method_401_witness:
  "str_upper ''post'' \<noteq> ''GET'' \<and> str_upper ''post'' \<noteq> ''HEAD''
   \<and> static_handler example_world ''app/build'' ''post'' ''/index.html'' =
       (401,
        [(''Content-Length'', [''11'']), (''Content-Type'', [''text/plain''])],
        Some ''Bad Request'')"
proof -
  have h1: "str_upper ''post'' \<noteq> ''GET''"
    by (simp add: str_upper_def upper_char_def)
  have h2: "str_upper ''post'' \<noteq> ''HEAD''"
    by (simp add: str_upper_def upper_char_def)
  from static_other_method_401 [OF h1 h2] h1 h2 show ?thesis by simp
qed

text \<open>
  C10. The method check of the static resolver ignores letter case: for every method
  string and every path, resolving with the method gives the same response as resolving
  with its upper-cased form.
\<close>

theorem static_method_case_insensitive:
  "static_handler w static_path method path =
     static_handler w static_path (str_upper method) path"
  by (simp add: static_handler_def str_upper_idem)

text \<open>
  C2 (as amended). Every response of the static resolver has a Content-Length header.
  For a method other than HEAD (after upper-casing), and for HEAD where the path is not
  an existing regular file, its value is the decimal length of the response body, so
  the invariant of the response holds. For HEAD on an existing regular file the body
  is empty and Content-Length is the size of the file; the invariant then holds only
  for an empty file.
\<close>

theorem static_content_length:
  assumes r: "static_handler w static_path method path = (status, hs, body)"
  shows "map_of hs ''Content-Length'' =
           Some [str_nat (if str_upper method = ''HEAD''
                            \<and> is_file (fs w static_path (lstrip CHR ''/'' path))
                          then st_size (fs w static_path (lstrip CHR ''/'' path))
                          else body_len body)]
         \<and> (str_upper method = ''HEAD'' \<and> is_file (fs w static_path (lstrip CHR ''/'' path))
              \<longrightarrow> body = Some [])
         \<and> (str_upper method \<noteq> ''HEAD''
              \<or> \<not> is_file (fs w static_path (lstrip CHR ''/'' path))
              \<or> st_size (fs w static_path (lstrip CHR ''/'' path)) = 0
              \<longrightarrow> content_length_ok (status, hs, body))"
proof (cases "fs w static_path (lstrip CHR ''/'' path)")
  case Missing
  with r show ?thesis
    by (auto simp: static_handler_def Let_def content_length_ok_def body_len_def
          str_lower_content_length str_lower_content_type split: if_splits)
next
  case NotRegular
  with r show ?thesis
    by (auto simp: static_handler_def Let_def content_length_ok_def body_len_def
          str_lower_content_length str_lower_content_type split: if_splits)
next
  case (Regular b)
  with r show ?thesis
    by (auto simp: static_handler_def Let_def content_length_ok_def body_len_def
          str_lower_content_length str_lower_content_type split: if_splits)
qed

theorem static_content_length_witness:
  "static_handler example_world ''app/build'' ''GET'' ''/index.html'' =
     (200, [(''Content-Length'', [''6'']), (''Content-Type'', [''text/html''])], Some ''<html>'')
   \<and> content_length_ok
       (200, [(''Content-Length'', [''6'']), (''Content-Type'', [''text/html''])],
        Some ''<html>'')
   \<and> static_handler example_world ''app/build'' ''HEAD'' ''/empty.txt'' =
     (200, [(''Content-Length'', [''0'']), (''Content-Type'', [''text/plain''])], Some [])
   \<and> content_length_ok
       (200, [(''Content-Length'', [''0'']), (''Content-Type'', [''text/plain''])], Some [])"
proof -
  have g: "static_handler example_world ''app/build'' ''GET'' ''/index.html'' =
     (200, [(''Content-Length'', [''6'']), (''Content-Type'', [''text/html''])], Some ''<html>'')"
    by (simp add: static_handler_def example_world_def str_upper_def upper_char_def
          lstrip_def str_nat.simps)
  have h: "static_handler example_world ''app/build'' ''HEAD'' ''/empty.txt'' =
     (200, [(''Content-Length'', [''0'']), (''Content-Type'', [''text/plain''])], Some [])"
    by (simp add: static_handler_def example_world_def str_upper_def upper_char_def
          lstrip_def str_nat.simps)
  have m: "str_upper ''GET'' \<noteq> ''HEAD''"
    by (simp add: str_upper_def upper_char_def)
  have e: "st_size (fs example_world ''app/build'' (lstrip CHR ''/'' ''/empty.txt'')) = 0"
    by (simp add: example_world_def lstrip_def)
  from static_content_length [OF g] m
  have c1: "content_length_ok
       (200, [(''Content-Length'', [''6'']), (''Content-Type'', [''text/html''])],
        Some ''<html>'')"
    by blast
  from static_content_length [OF h] e
  have c2: "content_length_ok
       (200, [(''Content-Length'', [''0'']), (''Content-Type'', [''text/plain''])], Some [])"
    by blast
  show ?thesis
    by (intro conjI) (rule g, rule c1, rule h, rule c2)
qed

text \<open>
  C2 as stated fails: a HEAD request for the 6-byte file \<open>index.html\<close> is answered
  with Content-Length 6 and an empty body.
\<close>

theorem static_content_length_counterexample:
  "static_handler example_world ''app/build'' ''HEAD'' ''/index.html'' =
     (200, [(''Content-Length'', [''6'']), (''Content-Type'', [''text/html''])], Some [])
   \<and> \<not> content_length_ok
         (static_handler example_world ''app/build'' ''HEAD'' ''/index.html'')"
  by (simp add: static_handler_def example_world_def str_upper_def upper_char_def
        lstrip_def str_nat.simps content_length_ok_def body_len_def str_lower_def lower_char_def)

section \<open>The binary-content decision is the spec's decision\<close>



section \<open>The gateway adapter: cookies of the event\<close>

text \<open>
  C4 (as amended). For every gateway event, the strings of the event's cookies list are
  appended, in order, to the values of the request's header spelled exactly \<open>Cookie\<close>,
  after the values that header already had; the header is created, as the last one,
  when the event has none so spelled. No value of any header is replaced or lost, and a
  header spelled otherwise, also one that differs from \<open>Cookie\<close> in letter case only,
  is left as it is. So when the event has no header spelled \<open>Cookie\<close>, the cookies
  end the values of the Cookie header read without regard to letter case. When the
  event has cookies and no header named \<open>cookie\<close> in any letter case, the request has
  exactly one such header, named \<open>Cookie\<close>, whose values are the cookies: for the
  cookies a=1 and b=2 it is the list of a=1 and b=2.
\<close>

theorem cookies_appended:
  "(let hs0 = split_headers (ev_headers ev);
        cs = event_cookies ev;
        old = (case map_of hs0 ''Cookie'' of None \<Rightarrow> [] | Some vs \<Rightarrow> vs)
    in map_of (request_headers ev) ''Cookie'' =
         (if cs = [] then map_of hs0 ''Cookie'' else Some (old @ cs))
       \<and> (\<forall>n. n \<noteq> ''Cookie'' \<longrightarrow> map_of (request_headers ev) n = map_of hs0 n)
       \<and> map fst (request_headers ev) =
           (if cs = [] \<or> ''Cookie'' \<in> set (map fst hs0) then map fst hs0
            else map fst hs0 @ [''Cookie''])
       \<and> (cs \<noteq> [] \<and> ''Cookie'' \<notin> set (map fst hs0)
            \<longrightarrow> request_headers ev = hs0 @ [(''Cookie'', cs)])
       \<and> (''Cookie'' \<notin> set (map fst hs0)
            \<longrightarrow> header_values (request_headers ev) ''cookie'' =
                  header_values hs0 ''cookie'' @ cs)
       \<and> (cs \<noteq> [] \<and> (\<forall>n \<in> set (map fst (ev_headers ev)). str_lower n \<noteq> ''cookie'')
            \<longrightarrow> request_headers ev = hs0 @ [(''Cookie'', cs)]
              \<and> filter (\<lambda>(n, vs). str_lower n = ''cookie'') (request_headers ev) =
                  [(''Cookie'', cs)]))"
proof -
  let ?hs0 = "split_headers (ev_headers ev)"
  let ?cs = "event_cookies ev"
  have a: "map_of (request_headers ev) ''Cookie'' =
         (if ?cs = [] then map_of ?hs0 ''Cookie''
          else Some ((case map_of ?hs0 ''Cookie'' of None \<Rightarrow> [] | Some vs \<Rightarrow> vs) @ ?cs))"
    by (simp add: request_headers_def fold_add_cookie_map_of)
  have b: "\<forall>n. n \<noteq> ''Cookie'' \<longrightarrow> map_of (request_headers ev) n = map_of ?hs0 n"
    by (simp add: request_headers_def fold_add_cookie_map_of)
  have c: "map fst (request_headers ev) =
           (if ?cs = [] \<or> ''Cookie'' \<in> set (map fst ?hs0) then map fst ?hs0
            else map fst ?hs0 @ [''Cookie''])"
    unfolding request_headers_def by (rule fold_add_cookie_keys)
  have d: "request_headers ev = ?hs0 @ [(''Cookie'', ?cs)]
              \<and> filter (\<lambda>(n, vs). str_lower n = ''cookie'') (request_headers ev) =
                  [(''Cookie'', ?cs)]"
    if ne: "?cs \<noteq> []" and no: "\<forall>n \<in> set (map fst (ev_headers ev)). str_lower n \<noteq> ''cookie''"
  proof -
    from no have k: "\<forall>n \<in> set (map fst ?hs0). str_lower n \<noteq> ''cookie''"
      by (simp only: split_headers_keys)
    then have "''Cookie'' \<notin> fst ` set ?hs0"
      using lower_cookie by auto
    from fold_add_cookie_fresh [OF this ne]
    have e: "request_headers ev = ?hs0 @ [(''Cookie'', ?cs)]"
      by (simp add: request_headers_def)
    from k have "filter (\<lambda>(n, vs). str_lower n = ''cookie'') ?hs0 = []"
      by (auto simp: filter_empty_conv)
    with e show ?thesis
      by (simp add: lower_cookie)
  qed
  have f: "request_headers ev = ?hs0 @ [(''Cookie'', ?cs)]"
    if ne: "?cs \<noteq> []" and no: "''Cookie'' \<notin> set (map fst ?hs0)"
  proof -
    from no have "''Cookie'' \<notin> fst ` set ?hs0" by simp
    from fold_add_cookie_fresh [OF this ne] show ?thesis
      by (simp add: request_headers_def)
  qed
  have g: "header_values (request_headers ev) ''cookie'' = header_values ?hs0 ''cookie'' @ ?cs"
    if no: "''Cookie'' \<notin> set (map fst ?hs0)"
  proof (cases "?cs = []")
    case True
    then show ?thesis
      by (simp add: request_headers_def)
  next
    case False
    from f [OF False no] show ?thesis
      by (simp add: header_values_def lower_cookie)
  qed
  show ?thesis
    unfolding Let_def using a b c d f g by blast
qed

theorem cookies_appended_witness:
  "request_headers
     \<lparr> ev_version = ''2.0'', ev_method = ''GET'', ev_path = ''/api/x'',
       ev_rawQueryString = None, ev_headers = [(''accept'', ''text/html,text/plain'')],
       ev_cookies = Some [''a=1'', ''b=2''], ev_body = None, ev_isBase64Encoded = False \<rparr>
   = [(''accept'', [''text/html'', ''text/plain'']), (''Cookie'', [''a=1'', ''b=2''])]
   \<and> map_of (request_headers
     \<lparr> ev_version = ''2.0'', ev_method = ''GET'', ev_path = ''/api/x'',
       ev_rawQueryString = None, ev_headers = [(''Cookie'', ''x=1''), (''cookie'', ''y=2'')],
       ev_cookies = Some [''a=1'', ''b=2''], ev_body = None, ev_isBase64Encoded = False \<rparr>)
       ''Cookie''
   = Some [''x=1'', ''a=1'', ''b=2'']
   \<and> request_headers
     \<lparr> ev_version = ''2.0'', ev_method = ''GET'', ev_path = ''/api/x'',
       ev_rawQueryString = None, ev_headers = [(''cookie'', ''x=1'')],
       ev_cookies = Some [''a=1'', ''b=2''], ev_body = None, ev_isBase64Encoded = False \<rparr>
   = [(''cookie'', [''x=1'']), (''Cookie'', [''a=1'', ''b=2''])]"
  using cookies_appended [of "\<lparr> ev_version = ''2.0'', ev_method = ''GET'', ev_path = ''/api/x'',
       ev_rawQueryString = None, ev_headers = [(''cookie'', ''x=1'')],
       ev_cookies = Some [''a=1'', ''b=2''], ev_body = None, ev_isBase64Encoded = False \<rparr>"]
    cookies_appended [of "\<lparr> ev_version = ''2.0'', ev_method = ''GET'', ev_path = ''/api/x'',
       ev_rawQueryString = None, ev_headers = [(''accept'', ''text/html,text/plain'')],
       ev_cookies = Some [''a=1'', ''b=2''], ev_body = None, ev_isBase64Encoded = False \<rparr>"]
    cookies_appended [of "\<lparr> ev_version = ''2.0'', ev_method = ''GET'', ev_path = ''/api/x'',
       ev_rawQueryString = None, ev_headers = [(''Cookie'', ''x=1''), (''cookie'', ''y=2'')],
       ev_cookies = Some [''a=1'', ''b=2''], ev_body = None, ev_isBase64Encoded = False \<rparr>"]
  by (simp add: Let_def split_headers_def event_cookies_def str_lower_def lower_char_def)

text \<open>
  C4 as stated fails, header names being case-insensitive. With the headers \<open>Cookie\<close>
  (x=1) and \<open>cookie\<close> (y=2) in that order, the cookies a=1 and b=2 land between the
  values the Cookie header had; with the one header \<open>cookie\<close> (x=1) they are not
  appended to it but put into a second header.
\<close>

theorem cookies_appended_counterexample:
  "header_values (split_headers [(''Cookie'', ''x=1''), (''cookie'', ''y=2'')]) ''cookie'' =
     [''x=1'', ''y=2'']
   \<and> header_values (request_headers
         \<lparr> ev_version = ''2.0'', ev_method = ''GET'', ev_path = ''/api/x'',
           ev_rawQueryString = None,
           ev_headers = [(''Cookie'', ''x=1''), (''cookie'', ''y=2'')],
           ev_cookies = Some [''a=1'', ''b=2''], ev_body = None,
           ev_isBase64Encoded = False \<rparr>) ''cookie'' =
     [''x=1'', ''a=1'', ''b=2'', ''y=2'']
   \<and> request_headers
         \<lparr> ev_version = ''2.0'', ev_method = ''GET'', ev_path = ''/api/x'',
           ev_rawQueryString = None, ev_headers = [(''cookie'', ''x=1'')],
           ev_cookies = Some [''a=1'', ''b=2''], ev_body = None,
           ev_isBase64Encoded = False \<rparr> =
     [(''cookie'', [''x=1'']), (''Cookie'', [''a=1'', ''b=2''])]"
  by (simp add: header_values_def request_headers_def split_headers_def event_cookies_def
        add_cookie_def dict_has_def dict_set_def str_lower_def lower_char_def)

section \<open>The gateway adapter: the reply\<close>

text \<open>
  C5. For every response that the gateway adapter serializes into a reply: a header
  whose name is \<open>set-cookie\<close> in any letter case has no entry in the reply's headers
  and all its values are in the reply's cookies; every other header is in the reply's
  headers with its values joined by commas (and, the names of a dict being distinct,
  that is the value the headers map gives for its name); the reply's headers and
  cookies hold nothing else. The cookies list is as long as the Set-Cookie values are
  many: two values give a list of length 2.
\<close>

theorem set_cookie_extracted:
  assumes "encode_response w (status, hs, body) = Inr r"
  shows "(\<forall>(n, vs) \<in> set hs. str_lower n = ''set-cookie'' \<longrightarrow>
            n \<notin> fst ` set (reply_headers r) \<and> set vs \<subseteq> set (reply_cookies r))
       \<and> (\<forall>(n, vs) \<in> set hs. str_lower n \<noteq> ''set-cookie'' \<longrightarrow>
            (n, join '','' vs) \<in> set (reply_headers r))
       \<and> (\<forall>(n, v) \<in> set (reply_headers r). str_lower n \<noteq> ''set-cookie''
            \<and> (\<exists>vs. (n, vs) \<in> set hs \<and> v = join '','' vs))
       \<and> (\<forall>c \<in> set (reply_cookies r). \<exists>(n, vs) \<in> set hs.
            str_lower n = ''set-cookie'' \<and> c \<in> set vs)
       \<and> length (reply_cookies r) =
           sum_list (map (\<lambda>(n, vs). length vs)
             (filter (\<lambda>(n, vs). str_lower n = ''set-cookie'') hs))
       \<and> (distinct (map fst hs) \<longrightarrow>
            (\<forall>(n, vs) \<in> set hs. str_lower n \<noteq> ''set-cookie'' \<longrightarrow>
               map_of (reply_headers r) n = Some (join '','' vs)))"
proof -
  note f = encode_response_fields [OF assms]
  have a: "\<forall>(n, vs) \<in> set hs. str_lower n = ''set-cookie'' \<longrightarrow>
            n \<notin> fst ` set (reply_headers r) \<and> set vs \<subseteq> set (reply_cookies r)"
    unfolding f by force
  have b: "\<forall>(n, vs) \<in> set hs. str_lower n \<noteq> ''set-cookie'' \<longrightarrow>
            (n, join '','' vs) \<in> set (reply_headers r)"
    unfolding f by force
  have c: "\<forall>(n, v) \<in> set (reply_headers r). str_lower n \<noteq> ''set-cookie''
            \<and> (\<exists>vs. (n, vs) \<in> set hs \<and> v = join '','' vs)"
    unfolding f by auto
  have d: "\<forall>c \<in> set (reply_cookies r). \<exists>(n, vs) \<in> set hs.
            str_lower n = ''set-cookie'' \<and> c \<in> set vs"
    unfolding f by auto
  have e: "length (reply_cookies r) =
           sum_list (map (\<lambda>(n, vs). length vs)
             (filter (\<lambda>(n, vs). str_lower n = ''set-cookie'') hs))"
    unfolding f by (rule length_concat_values)
  have g: "\<forall>(n, vs) \<in> set hs. str_lower n \<noteq> ''set-cookie'' \<longrightarrow>
               map_of (reply_headers r) n = Some (join '','' vs)"
    if dist: "distinct (map fst hs)"
  proof -
    have keys: "map fst (reply_headers r) =
                  map fst (filter (\<lambda>(name, vs). str_lower name \<noteq> ''set-cookie'') hs)"
      unfolding f by (induction hs) auto
    have "distinct (map fst (filter (\<lambda>(name, vs). str_lower name \<noteq> ''set-cookie'') hs))"
      using dist by (rule distinct_map_filter)
    with keys have "distinct (map fst (reply_headers r))" by simp
    with b show ?thesis
      by (auto intro: map_of_is_SomeI)
  qed
  from a b c d e g show ?thesis by blast
qed

theorem set_cookie_extracted_witness:
  "\<exists>r. encode_response example_world
          (200, [(''Set-Cookie'', [''a=1'', ''b=2'']), (''Content-Type'', [''text/html'']),
                 (''X-Tag'', [''u'', ''v''])], Some ''hi'') = Inr r
       \<and> reply_cookies r = [''a=1'', ''b=2'']
       \<and> length (reply_cookies r) = 2
       \<and> reply_headers r = [(''Content-Type'', ''text/html''), (''X-Tag'', ''u,v'')]
       \<and> map_of (reply_headers r) ''Set-Cookie'' = None
       \<and> map_of (reply_headers r) ''X-Tag'' = Some ''u,v''"
proof -
  let ?hs = "[(''Set-Cookie'', [''a=1'', ''b=2'']), (''Content-Type'', [''text/html'']),
                 (''X-Tag'', [''u'', ''v''])]"
  let ?r = "\<lparr> statusCode = 200,
              reply_headers = [(''Content-Type'', ''text/html''), (''X-Tag'', ''u,v'')],
              reply_cookies = [''a=1'', ''b=2''],
              reply_isBase64Encoded = False,
              reply_body = Some ''hi'' \<rparr>"
  have v: "encode_response example_world (200, ?hs, Some ''hi'') = Inr ?r"
    by (simp add: encode_response_def is_binary_content_def first_value_def
          is_text_content_type_def startswith_def str_lower_def lower_char_def)
  from set_cookie_extracted [OF v]
  have "map_of (reply_headers ?r) ''X-Tag'' = Some (join '','' [''u'', ''v''])"
    by (simp add: str_lower_def lower_char_def)
  with v show ?thesis
    by simp
qed

section \<open>Starting the API server\<close>

text \<open>
  C7 (as amended). A round of the loop tries to connect before it checks the deadline.
  If every connection attempt fails up to and including the round whose deadline check
  is the first to find the start timeout elapsed, \<open>start_api_server_process\<close> returns
  no handle: it raises the startup error, and the one process it spawned is terminated
  (nothing else is spawned: there is no retry). If an attempt succeeds and no deadline
  check before it found the timeout elapsed, it returns the handle of the one process
  it spawned, which is still running, also when the deadline has passed by the time of
  that attempt.
\<close>

theorem startup_outcome:
  "((\<forall>i \<le> k. \<not> connect_ok pe host port i)
      \<and> (\<forall>i < k. clock pe i < start_time pe + real_of_int start_timeout)
      \<and> clock pe k \<ge> start_time pe + real_of_int start_timeout
     \<longrightarrow> start_api_server_process pe command host port start_timeout path procs =
           Some (Inl (RuntimeError ''Timeout waiting for API server to start''),
                 procs @ [\<lparr> proc_command = command,
                            proc_env = [(''PATH'', path), (''PORT'', str_nat port),
                                        (''PYTHONPATH'', ''.pypath/'')],
                            proc_status = Terminated \<rparr>]))
   \<and> (connect_ok pe host port j
      \<and> (\<forall>i < j. \<not> connect_ok pe host port i
                    \<and> clock pe i < start_time pe + real_of_int start_timeout)
     \<longrightarrow> start_api_server_process pe command host port start_timeout path procs =
           Some (Inr (length procs),
                 procs @ [\<lparr> proc_command = command,
                            proc_env = [(''PATH'', path), (''PORT'', str_nat port),
                                        (''PYTHONPATH'', ''.pypath/'')],
                            proc_status = Running \<rparr>]))"
proof (intro conjI impI)
  let ?e = "start_time pe + real_of_int start_timeout"
  assume a: "(\<forall>i \<le> k. \<not> connect_ok pe host port i) \<and> (\<forall>i < k. clock pe i < ?e) \<and> clock pe k \<ge> ?e"
  then have "\<forall>i < k. \<not> connect_ok pe host port (0 + i) \<and> clock pe (0 + i) < ?e"
    by simp
  from probe_loop_skip [OF this]
  have "probe_loop pe host port ?e 0 = probe_loop pe host port ?e k" by simp
  also from a have "\<dots> = Some False"
    by (intro probe_loop_expired) simp_all
  finally show "start_api_server_process pe command host port start_timeout path procs =
           Some (Inl (RuntimeError ''Timeout waiting for API server to start''),
                 procs @ [\<lparr> proc_command = command,
                            proc_env = [(''PATH'', path), (''PORT'', str_nat port),
                                        (''PYTHONPATH'', ''.pypath/'')],
                            proc_status = Terminated \<rparr>])"
    by (simp add: start_api_server_process_def popen_def terminate_def)
next
  let ?e = "start_time pe + real_of_int start_timeout"
  assume a: "connect_ok pe host port j \<and> (\<forall>i < j. \<not> connect_ok pe host port i \<and> clock pe i < ?e)"
  then have "\<forall>i < j. \<not> connect_ok pe host port (0 + i) \<and> clock pe (0 + i) < ?e"
    by simp
  from probe_loop_skip [OF this]
  have "probe_loop pe host port ?e 0 = probe_loop pe host port ?e j" by simp
  also from a have "\<dots> = Some True"
    by (intro probe_loop_success) simp
  finally show "start_api_server_process pe command host port start_timeout path procs =
           Some (Inr (length procs),
                 procs @ [\<lparr> proc_command = command,
                            proc_env = [(''PATH'', path), (''PORT'', str_nat port),
                                        (''PYTHONPATH'', ''.pypath/'')],
                            proc_status = Running \<rparr>])"
    by (simp add: start_api_server_process_def popen_def)
qed

theorem startup_outcome_witness:
  "start_api_server_process (example_probes 100) ''python api/app.py'' ''localhost'' 8180 2
       ''/usr/bin'' [] =
     Some (Inl (RuntimeError ''Timeout waiting for API server to start''),
           [\<lparr> proc_command = ''python api/app.py'',
              proc_env = [(''PATH'', ''/usr/bin''), (''PORT'', ''8180''),
                          (''PYTHONPATH'', ''.pypath/'')],
              proc_status = Terminated \<rparr>])
   \<and> start_api_server_process (example_probes 2) ''python api/app.py'' ''localhost'' 8180 5
       ''/usr/bin'' [] =
     Some (Inr 0,
           [\<lparr> proc_command = ''python api/app.py'',
              proc_env = [(''PATH'', ''/usr/bin''), (''PORT'', ''8180''),
                          (''PYTHONPATH'', ''.pypath/'')],
              proc_status = Running \<rparr>])"
proof -
  have p: "str_nat 8180 = ''8180''"
    by (simp add: str_nat.simps)
  have a1: "\<forall>i \<le> 1. \<not> connect_ok (example_probes 100) ''localhost'' 8180 i"
    by (simp add: example_probes_def)
  have a2: "\<forall>i < 1. clock (example_probes 100) i
              < start_time (example_probes 100) + real_of_int 2"
    by (simp add: example_probes_def)
  have a3: "clock (example_probes 100) 1 \<ge> start_time (example_probes 100) + real_of_int 2"
    by (simp add: example_probes_def)
  have b1: "connect_ok (example_probes 2) ''localhost'' 8180 2"
    by (simp add: example_probes_def)
  have b2: "\<forall>i < 2. \<not> connect_ok (example_probes 2) ''localhost'' 8180 i
              \<and> clock (example_probes 2) i < start_time (example_probes 2) + real_of_int 5"
    by (auto simp: example_probes_def)
  from startup_outcome [of 1 "example_probes 100" "''localhost''" 8180 2
      "''python api/app.py''" "''/usr/bin''" "[]"] a1 a2 a3
  have t: "start_api_server_process (example_probes 100) ''python api/app.py'' ''localhost''
             8180 2 ''/usr/bin'' [] =
     Some (Inl (RuntimeError ''Timeout waiting for API server to start''),
           [\<lparr> proc_command = ''python api/app.py'',
              proc_env = [(''PATH'', ''/usr/bin''), (''PORT'', ''8180''),
                          (''PYTHONPATH'', ''.pypath/'')],
              proc_status = Terminated \<rparr>])"
    by (simp add: p)
  from startup_outcome [of _ "example_probes 2" "''localhost''" 8180 5
      "''python api/app.py''" "''/usr/bin''" "[]" 2] b1 b2
  have u: "start_api_server_process (example_probes 2) ''python api/app.py'' ''localhost''
             8180 5 ''/usr/bin'' [] =
     Some (Inr 0,
           [\<lparr> proc_command = ''python api/app.py'',
              proc_env = [(''PATH'', ''/usr/bin''), (''PORT'', ''8180''),
                          (''PYTHONPATH'', ''.pypath/'')],
              proc_status = Running \<rparr>])"
    by (simp add: p)
  from t u show ?thesis ..
qed

text \<open>
  C7 as stated fails: with a start timeout of 0 the deadline is the reading of the clock
  before the loop, so no attempt observes the port open before the deadline; the first
  attempt succeeds after it, and the handle is returned with the process running.
\<close>

theorem startup_outcome_counterexample:
  "start_time (example_probes 0) + real_of_int 0 \<le> last_reading (example_probes 0) 0
   \<and> start_api_server_process (example_probes 0) ''python api/app.py'' ''localhost'' 8180 0
       ''/usr/bin'' [] =
     Some (Inr 0,
           [\<lparr> proc_command = ''python api/app.py'',
              proc_env = [(''PATH'', ''/usr/bin''), (''PORT'', ''8180''),
                          (''PYTHONPATH'', ''.pypath/'')],
              proc_status = Running \<rparr>])"
proof -
  have p: "str_nat 8180 = ''8180''"
    by (simp add: str_nat.simps)
  have c: "connect_ok (example_probes 0) ''localhost'' 8180 0"
    by (simp add: example_probes_def)
  have l: "start_time (example_probes 0) + real_of_int 0 \<le> last_reading (example_probes 0) 0"
    by (simp add: last_reading_def)
  from probe_loop_success [OF c] l show ?thesis
    by (simp add: start_api_server_process_def popen_def p)
qed

text \<open>
  C9. The loop tries to connect before it looks at the clock: for every start timeout,
  also zero or negative, if the first connection attempt succeeds then
  \<open>start_api_server_process\<close> returns the handle of the process it spawned, which is
  still running, and does not raise the startup error.
\<close>

theorem first_probe_success:
  assumes "connect_ok pe host port 0"
  shows "start_api_server_process pe command host port start_timeout path procs =
           Some (Inr (length procs),
                 procs @ [\<lparr> proc_command = command,
                            proc_env = [(''PATH'', path), (''PORT'', str_nat port),
                                        (''PYTHONPATH'', ''.pypath/'')],
                            proc_status = Running \<rparr>])"
  using assms
  by (simp add: start_api_server_process_def popen_def probe_loop_success)

theorem first_probe_success_witness:
  "connect_ok (example_probes 0) ''localhost'' 8180 0
   \<and> start_api_server_process (example_probes 0) ''python api/app.py'' ''localhost'' 8180 (- 3)
       ''/usr/bin'' [] =
     Some (Inr 0,
           [\<lparr> proc_command = ''python api/app.py'',
              proc_env = [(''PATH'', ''/usr/bin''), (''PORT'', ''8180''),
                          (''PYTHONPATH'', ''.pypath/'')],
              proc_status = Running \<rparr>])"
proof -
  have p: "str_nat 8180 = ''8180''"
    by (simp add: str_nat.simps)
  have c: "connect_ok (example_probes 0) ''localhost'' 8180 0"
    by (simp add: example_probes_def)
  from first_probe_success [OF c, of "''python api/app.py''" "- 3" "''/usr/bin''" "[]"] c
  show ?thesis
    by (simp add: p)
qed

end
